theory Spec2Isabelle
  imports Main
begin

section \<open>Python values, lists and dictionaries\<close>

text \<open>
  The values a constraint can be given as its \<open>result\<close>. Only \<open>PBool\<close> passes
  \<^verbatim>\<open>isinstance(self.result, bool)\<close>. The pipeline's return value is a \<open>pyval\<close> too,
  and \<open>PNone\<close> is the handler's initial \<^verbatim>\<open>result = None\<close>.
\<close>

datatype pyval = PNone | PBool bool | PInt int | PStr string

text \<open>
  Python's \<^verbatim>\<open>==\<close> on these values, which is what a dictionary uses to compare keys:
  \<^verbatim>\<open>True == 1\<close> and \<^verbatim>\<open>False == 0\<close> hold (and the hashes agree).
\<close>

fun py_eq :: "pyval \<Rightarrow> pyval \<Rightarrow> bool" where
  "py_eq (PBool a) (PInt n) = ((if a then 1 else 0) = n)"
| "py_eq (PInt n) (PBool a) = (n = (if a then 1 else 0))"
| "py_eq a b = (a = b)"

text \<open>
  A Python \<^verbatim>\<open>dict\<close> is an association list in insertion order with distinct keys.
  \<open>dict_set\<close> is \<^verbatim>\<open>d[k] = v\<close>: an existing key keeps its position, a new key goes last.
  \<open>dict_get\<close> is the lookup (\<open>None\<close> where Python raises \<^verbatim>\<open>KeyError\<close> or
  \<^verbatim>\<open>.get\<close> returns its default), \<open>dict_setdefault\<close> is \<^verbatim>\<open>d.setdefault(k, v)\<close>
  as far as the dictionary goes, \<open>dict_pop\<close> is \<^verbatim>\<open>d.pop(k, None)\<close>.
\<close>

fun dict_set :: "'k \<Rightarrow> 'v \<Rightarrow> ('k \<times> 'v) list \<Rightarrow> ('k \<times> 'v) list" where
  "dict_set k v [] = [(k, v)]"
| "dict_set k v (kv # d) = (if fst kv = k then (k, v) # d else kv # dict_set k v d)"

fun dict_get :: "('k \<times> 'v) list \<Rightarrow> 'k \<Rightarrow> 'v option" where
  "dict_get [] k = None"
| "dict_get (kv # d) k = (if fst kv = k then Some (snd kv) else dict_get d k)"

definition dict_setdefault :: "'k \<Rightarrow> 'v \<Rightarrow> ('k \<times> 'v) list \<Rightarrow> ('k \<times> 'v) list" where
  "dict_setdefault k v d = (case dict_get d k of None \<Rightarrow> d @ [(k, v)] | Some _ \<Rightarrow> d)"

definition dict_pop :: "'k \<Rightarrow> ('k \<times> 'v) list \<Rightarrow> ('k \<times> 'v) list" where
  "dict_pop k d = filter (\<lambda>kv. fst kv \<noteq> k) d"

definition dict_keys :: "('k \<times> 'v) list \<Rightarrow> 'k list" where
  "dict_keys d = map fst d"

text \<open>\<^verbatim>\<open>xs.index(x)\<close>: the first position of \<open>x\<close>; \<open>None\<close> where Python raises \<^verbatim>\<open>ValueError\<close>.\<close>

fun list_index :: "'a \<Rightarrow> 'a list \<Rightarrow> nat option" where
  "list_index x [] = None"
| "list_index x (y # ys) = (if y = x then Some 0 else map_option Suc (list_index x ys))"

text \<open>\<^verbatim>\<open>xs.insert(i, x)\<close> for \<open>i \<ge> 0\<close>: past the end it appends.\<close>

definition list_insert :: "nat \<Rightarrow> 'a \<Rightarrow> 'a list \<Rightarrow> 'a list" where
  "list_insert i x xs = take i xs @ x # drop i xs"

text \<open>\<^verbatim>\<open>sep.join(xs)\<close>.\<close>

fun str_join :: "string \<Rightarrow> string list \<Rightarrow> string" where
  "str_join sep [] = []"
| "str_join sep [x] = x"
| "str_join sep (x # y # ys) = x @ sep @ str_join sep (y # ys)"

section \<open>Assertion helpers\<close>

text \<open>\<^verbatim>\<open>_build_error_msg\<close>: the feedback messages joined by newlines.\<close>

definition build_error_msg :: "string list \<Rightarrow> string" where
  "build_error_msg feedback_msgs = str_join [CHR 0x0A] (map (\<lambda>msg. msg) feedback_msgs)"

text \<open>
  The handler's ``save unique feedback message for predictor'':
  \<^verbatim>\<open>if error_msg not in predictor_feedbacks.setdefault(backtrack_to, []):
      predictor_feedbacks[backtrack_to].append(error_msg)\<close>
  The key is the resolved step, or \<open>None\<close> when no step was resolved.
\<close>

definition save_feedback ::
  "'k \<Rightarrow> string \<Rightarrow> ('k \<times> string list) list \<Rightarrow> ('k \<times> string list) list" where
  "save_feedback backtrack_to error_msg predictor_feedbacks =
     (let fbs = dict_setdefault backtrack_to [] predictor_feedbacks;
          msgs = (case dict_get fbs backtrack_to of None \<Rightarrow> [] | Some ms \<Rightarrow> ms)
      in if error_msg \<notin> set msgs then dict_set backtrack_to (msgs @ [error_msg]) fbs else fbs)"



section \<open>Steps, schemas and entry points\<close>

text \<open>
  A field descriptor as \<^verbatim>\<open>dspy.InputField(prefix=..., desc=..., format=...)\<close> builds it
  (the format function is named by a string). \<open>NoField\<close> is Python's \<^verbatim>\<open>None\<close>, the
  value \<^verbatim>\<open>old_signature.kwargs.get(key)\<close> has for a key it does not hold.
\<close>

datatype field = InputField string string string | NoField

text \<open>
  The signature object held in \<^verbatim>\<open>predictor.extended_signature\<close>: the code reads its
  \<^verbatim>\<open>instructions\<close> and its ordered \<^verbatim>\<open>kwargs\<close>, and builds a new one with
  \<^verbatim>\<open>dsp.Template(instructions, **kwargs)\<close>, which keeps both as given.
\<close>

record template =
  instructions :: string
  kwargs :: "(string \<times> field) list"

definition Template :: "string \<Rightarrow> (string \<times> field) list \<Rightarrow> template" where
  "Template ins kw = \<lparr>instructions = ins, kwargs = kw\<rparr>"

text \<open>
  Values bound by default: the feedback text is a string, the counter-example passages
  a list of strings.
\<close>

datatype argval = AStr string | APassages "string list"

text \<open>
  An entry point of a step: \<open>Forward n\<close> is the method the step was declared with,
  \<open>NewForward default_args original_forward\<close> the closure \<^verbatim>\<open>new_forward\<close> that
  \<^verbatim>\<open>_wrap_forward_with_set_fields\<close> creates.
\<close>

datatype fwd = Forward nat | NewForward "(string \<times> argval) list" fwd

text \<open>
  Calling an entry point with keyword arguments: each wrapper runs
  \<^verbatim>\<open>kwargs.setdefault(arg, value)\<close> for its defaults and calls what it wraps.
  The result names the declared method that is reached and the arguments it receives.
\<close>

fun call_forward :: "fwd \<Rightarrow> (string \<times> argval) list \<Rightarrow> nat \<times> (string \<times> argval) list" where
  "call_forward (Forward n) kw = (n, kw)"
| "call_forward (NewForward default_args original_forward) kw =
     call_forward original_forward (fold (\<lambda>av k. dict_setdefault (fst av) (snd av) k) default_args kw)"

text \<open>
  A step (predictor): its declared \<^verbatim>\<open>signature\<close> (an object, known by identity and
  compared with \<^verbatim>\<open>target_module\<close>), its \<^verbatim>\<open>extended_signature\<close> and its
  \<^verbatim>\<open>forward\<close>.
\<close>

record predictor =
  signature :: nat
  extended_signature :: template
  forward :: fwd

section \<open>Exceptions, trace and process state\<close>

text \<open>
  One trace entry \<^verbatim>\<open>(mod, ip, op)\<close>: the step (by identity), its inputs and the
  \<^verbatim>\<open>_store\<close> of the prediction it returned.
\<close>

type_synonym entry = "nat \<times> (string \<times> string) list \<times> (string \<times> string) list"

text \<open>
  The exceptions. The two assertion errors carry \<^verbatim>\<open>id\<close>, \<^verbatim>\<open>msg\<close> and
  \<^verbatim>\<open>state\<close>; \<^verbatim>\<open>state\<close> is the object \<^verbatim>\<open>dsp.settings.trace\<close> evaluates to, so
  here the address of a list object. \<open>OtherError\<close> is any other exception of a pipeline.
\<close>

datatype exn =
    DSPyAssertionError nat string nat
  | DSPySuggestionError nat string nat
  | ValueError string
  | IndexError string
  | KeyError string
  | OtherError string

datatype cls = Assert | Suggest

text \<open>
  A constraint object. \<open>cls\<close> is the class it was created as (which \<^verbatim>\<open>__call__\<close> it
  has); \<open>ident\<close> is its \<^verbatim>\<open>id\<close>.
\<close>

record constraint =
  cls :: cls
  ident :: nat
  result :: pyval
  msg :: string
  target_module :: "nat option"

text \<open>
  The process state the code reads and writes:
  \<^item> the two flags of \<^verbatim>\<open>dspy.settings\<close>;
  \<^item> \<open>trace\<close>, the reference held in \<^verbatim>\<open>dsp.settings.trace\<close>, and \<open>heap\<close>, the list
    objects by address (lists are shared by reference, so an append is seen through every
    reference to the list);
  \<^item> \<open>registry\<close>, the class attribute \<^verbatim>\<open>Constraint._registry\<close>, keyed by
    \<^verbatim>\<open>(result, msg, target_module)\<close>;
  \<^item> \<open>uuid_next\<close>: \<^verbatim>\<open>str(uuid.uuid4())\<close> is taken from a supply that never repeats
    an identifier, here a counter;
  \<^item> \<open>logged\<close>: the lines given to \<^verbatim>\<open>logger.error\<close>;
  \<^item> \<open>predictors\<close>: the step objects by identity.
\<close>

record world =
  bypass_assert :: bool
  bypass_suggest :: bool
  trace :: nat
  heap :: "nat \<Rightarrow> entry list"
  registry :: "((pyval \<times> string \<times> nat option) \<times> constraint) list"
  uuid_next :: nat
  logged :: "string list"
  predictors :: "nat \<Rightarrow> predictor"

definition logger_error :: "string \<Rightarrow> world \<Rightarrow> world" where
  "logger_error line w = w\<lparr>logged := logged w @ [line]\<rparr>"

text \<open>
  Modelled from the spec: \<^verbatim>\<open>record(step, input, output)\<close> of the execution trace, which
  the steps call and which is not part of the source file: it appends an entry to the
  current trace list, in place.
\<close>

definition trace_record :: "entry \<Rightarrow> world \<Rightarrow> world" where
  "trace_record e w = w\<lparr>heap := (heap w)(trace w := heap w (trace w) @ [e])\<rparr>"

text \<open>
  Modelled from the spec: \<^verbatim>\<open>dspy.settings.context(bypass_assert=..., bypass_suggest=...)\<close>,
  the scoped override of the configuration, which is not part of the source file. Entering
  captures the current flags and applies the overrides that are given; leaving, by return
  or by exception, restores the captured flags.
\<close>

definition settings_context ::
  "bool option \<Rightarrow> bool option \<Rightarrow> (world \<Rightarrow> 'a \<times> world) \<Rightarrow> world \<Rightarrow> 'a \<times> world" where
  "settings_context new_assert new_suggest body w =
     (let w_in = w\<lparr>bypass_assert := (case new_assert of None \<Rightarrow> bypass_assert w | Some b \<Rightarrow> b),
                   bypass_suggest := (case new_suggest of None \<Rightarrow> bypass_suggest w | Some b \<Rightarrow> b)\<rparr>;
          (r, w_out) = body w_in
      in (r, w_out\<lparr>bypass_assert := bypass_assert w, bypass_suggest := bypass_suggest w\<rparr>))"

section \<open>Assertion helpers on steps\<close>

text \<open>
  \<^verbatim>\<open>repr\<close> of a string of ASCII characters. Python writes it between single quotes,
  or between double quotes when the string holds a single quote and no double quote; it
  escapes the backslash, the quote it writes the string between, newline, carriage return
  and tab, and writes every other control character as \<^verbatim>\<open>\xhh\<close>.
\<close>

definition hex_digit :: "nat \<Rightarrow> char" where
  "hex_digit n = ''0123456789abcdef'' ! (n mod 16)"

definition py_repr_char :: "char \<Rightarrow> char \<Rightarrow> string" where
  "py_repr_char quote c =
     (if c = CHR 0x5C then [CHR 0x5C, CHR 0x5C]
      else if c = quote then [CHR 0x5C, quote]
      else if c = CHR 0x0A then [CHR 0x5C, CHR ''n'']
      else if c = CHR 0x0D then [CHR 0x5C, CHR ''r'']
      else if c = CHR 0x09 then [CHR 0x5C, CHR ''t'']
      else if (of_char c :: nat) < 32 \<or> (of_char c :: nat) = 127
           then [CHR 0x5C, CHR ''x'', hex_digit (of_char c div 16), hex_digit (of_char c mod 16)]
      else [c])"

definition py_repr_str :: "string \<Rightarrow> string" where
  "py_repr_str s =
     (let quote = (if CHR 0x27 \<in> set s \<and> CHR 0x22 \<notin> set s then CHR 0x22 else CHR 0x27)
      in [quote] @ concat (map (py_repr_char quote) s) @ [quote])"

text \<open>\<^verbatim>\<open>str(op)\<close> of a dictionary of such strings.\<close>

definition py_str_dict :: "(string \<times> string) list \<Rightarrow> string" where
  "py_str_dict d =
     ''{'' @ str_join '', '' (map (\<lambda>kv. py_repr_str (fst kv) @ '': '' @ py_repr_str (snd kv)) d) @ ''}''"

text \<open>\<^verbatim>\<open>_build_trace_passages\<close>: one passage per failure trace, in dictionary order.\<close>

definition build_trace_passages ::
  "(nat \<times> (string \<times> string) list \<times> (string \<times> string) list \<times> string) list \<Rightarrow> string list" where
  "build_trace_passages failure_traces =
     map (\<lambda>item. case item of (i, ip, op, m) \<Rightarrow>
            ''Failed Instruction: '' @ m @ '' | Output: '' @ py_str_dict op) failure_traces"

text \<open>
  \<^verbatim>\<open>_extend_predictor_signature(predictor, **kwargs)\<close>. \<^verbatim>\<open>old_keys.index("question")\<close>
  raises \<^verbatim>\<open>ValueError\<close> when there is no such key. The new keys are inserted at
  \<open>position\<close> in reversed order; the dictionary comprehension then assigns key after key,
  so a repeated key stays where it came first.
\<close>

definition extend_predictor_signature ::
  "predictor \<Rightarrow> (string \<times> field) list \<Rightarrow> exn + predictor" where
  "extend_predictor_signature predictor kw =
     (let old_signature = extended_signature predictor;
          old_keys = dict_keys (kwargs old_signature)
      in case list_index ''question'' old_keys of
           None \<Rightarrow> Inl (ValueError '''question' is not in list'')
         | Some ix \<Rightarrow>
             (let position = ix + 1;
                  old_keys = fold (\<lambda>key ks. list_insert position key ks) (rev (dict_keys kw)) old_keys;
                  extended_kwargs =
                    fold (\<lambda>key d. dict_set key
                            (case dict_get kw key of
                               Some f \<Rightarrow> f
                             | None \<Rightarrow> (case dict_get (kwargs old_signature) key of
                                           Some f \<Rightarrow> f | None \<Rightarrow> NoField)) d)
                         old_keys [];
                  new_signature = Template (instructions old_signature) extended_kwargs
              in Inr (predictor\<lparr>extended_signature := new_signature\<rparr>)))"

text \<open>\<^verbatim>\<open>_revert_predictor_signature(predictor, *args)\<close>: pops every key of \<open>args\<close>.\<close>

definition revert_predictor_signature :: "predictor \<Rightarrow> string list \<Rightarrow> predictor" where
  "revert_predictor_signature predictor args =
     (let old_signature_kwargs = fold (\<lambda>key d. dict_pop key d) args (kwargs (extended_signature predictor));
          new_signature = Template (instructions (extended_signature predictor)) old_signature_kwargs
      in predictor\<lparr>extended_signature := new_signature\<rparr>)"

text \<open>\<^verbatim>\<open>_wrap_forward_with_set_fields(predictor, default_args)\<close>.\<close>

definition wrap_forward_with_set_fields :: "predictor \<Rightarrow> (string \<times> argval) list \<Rightarrow> predictor" where
  "wrap_forward_with_set_fields predictor default_args =
     (let original_forward = forward predictor
      in predictor\<lparr>forward := NewForward default_args original_forward\<rparr>)"

section \<open>Assertion primitives\<close>

text \<open>
  The registry lookup \<^verbatim>\<open>key in Constraint._registry\<close> / \<^verbatim>\<open>Constraint._registry[key]\<close>:
  keys are compared as Python compares tuples, component by component.
\<close>

fun registry_get ::
  "((pyval \<times> string \<times> nat option) \<times> constraint) list \<Rightarrow> (pyval \<times> string \<times> nat option)
     \<Rightarrow> constraint option" where
  "registry_get [] key = None"
| "registry_get (kc # reg) key =
     (if py_eq (fst (fst kc)) (fst key) \<and> snd (fst kc) = snd key then Some (snd kc)
      else registry_get reg key)"

text \<open>
  Lines 121 to 129 of \<^verbatim>\<open>Constraint.__init__\<close>: the object the name \<^verbatim>\<open>self\<close> is bound to
  when line 131 runs. On a registry hit \<^verbatim>\<open>self\<close> is rebound to the registered object
  (the instance Python has just allocated is left without attributes); otherwise the new
  instance gets a fresh id and is registered.
\<close>

definition Constraint_new ::
  "cls \<Rightarrow> pyval \<Rightarrow> string \<Rightarrow> nat option \<Rightarrow> world \<Rightarrow> constraint \<times> world" where
  "Constraint_new c r m tm w =
     (let key = (r, m, tm)
      in case registry_get (registry w) key of
           Some self \<Rightarrow> (self, w)
         | None \<Rightarrow>
             (let self = \<lparr>cls = c, ident = uuid_next w, result = r, msg = m, target_module = tm\<rparr>
              in (self, w\<lparr>uuid_next := Suc (uuid_next w), registry := registry w @ [(key, self)]\<rparr>)))"

text \<open>\<^verbatim>\<open>Assert.__call__\<close>.\<close>

definition Assert_call :: "constraint \<Rightarrow> world \<Rightarrow> (exn + bool) \<times> world" where
  "Assert_call self w =
     (case result self of
        PBool b \<Rightarrow>
          (if b then (Inr True, w)
           else if bypass_assert w then (Inr True, logger_error (''AssertionError: '' @ msg self) w)
           else (Inl (DSPyAssertionError (ident self) (msg self) (trace w)),
                 logger_error (''AssertionError: '' @ msg self) w))
      | _ \<Rightarrow> (Inl (ValueError ''Assertion function should always return [bool]''), w))"

text \<open>\<^verbatim>\<open>Suggest.__call__\<close>.\<close>

definition Suggest_call :: "constraint \<Rightarrow> world \<Rightarrow> (exn + bool) \<times> world" where
  "Suggest_call self w =
     (case result self of
        PBool b \<Rightarrow>
          (if b then (Inr True, w)
           else if bypass_suggest w then (Inr True, logger_error (''SuggestionFailed: '' @ msg self) w)
           else (Inl (DSPySuggestionError (ident self) (msg self) (trace w)),
                 logger_error (''SuggestionFailed: '' @ msg self) w))
      | _ \<Rightarrow> (Inl (ValueError ''Suggestion function should always return [bool]''), w))"

text \<open>
  \<^verbatim>\<open>Constraint.__init__\<close>: line 131 calls \<^verbatim>\<open>__call__\<close> of the object \<^verbatim>\<open>self\<close> is bound
  to, so of the class that object was created as.
\<close>

definition Constraint_init ::
  "cls \<Rightarrow> pyval \<Rightarrow> string \<Rightarrow> nat option \<Rightarrow> world \<Rightarrow> (exn + bool) \<times> world" where
  "Constraint_init c r m tm w =
     (let (self, w1) = Constraint_new c r m tm w
      in case cls self of Assert \<Rightarrow> Assert_call self w1 | Suggest \<Rightarrow> Suggest_call self w1)"

section \<open>The backtracking handler\<close>

text \<open>
  A pipeline is any callable run in the process state: it returns a value or raises, and
  leaves a new state.
\<close>

type_synonym pipeline = "world \<Rightarrow> (exn + pyval) \<times> world"

text \<open>
  What the handler does to its surroundings, in order: a call of the pipeline (with the
  two flags \<^verbatim>\<open>bypass_assert\<close> and \<^verbatim>\<open>bypass_suggest\<close> in force at the call), a
  completed augmentation of a step, a reversion of a step. The handler only writes this
  record and never reads it, and a pipeline cannot reach it.
\<close>

datatype event = Invoked bool bool | Augmented nat | Reverted nat

text \<open>
  The local variables of \<^verbatim>\<open>wrapper\<close> that live across iterations (\<^verbatim>\<open>error_msg\<close>,
  \<^verbatim>\<open>suggest_id\<close> and \<^verbatim>\<open>error_state\<close> are only used inside the iteration that sets them).
  The feedback and failure-trace dictionaries are keyed by \<^verbatim>\<open>backtrack_to\<close>, which can be
  \<^verbatim>\<open>None\<close>.
\<close>

record locals =
  backtrack_to :: "nat option"
  run_result :: pyval
  predictors_to_original_forward :: "(nat \<times> fwd) list"
  predictor_feedbacks :: "(nat option \<times> string list) list"
  failure_traces ::
    "(nat option \<times> (nat \<times> (string \<times> string) list \<times> (string \<times> string) list \<times> string) list) list"

definition init_locals :: locals where
  "init_locals = \<lparr>backtrack_to = None, run_result = PNone, predictors_to_original_forward = [],
                   predictor_feedbacks = [], failure_traces = []\<rparr>"

text \<open>
  Lines 301 to 306: the scan of the trace from its last entry to its first, given here
  the reversed trace. The first entry whose step has the target signature is taken;
  without one \<^verbatim>\<open>backtrack_to\<close> keeps the value it had.
\<close>

fun scan_trace :: "nat \<Rightarrow> (nat \<Rightarrow> predictor) \<Rightarrow> entry list \<Rightarrow> nat option \<Rightarrow> nat option" where
  "scan_trace t ps [] bt = bt"
| "scan_trace t ps (trace_element # es) bt =
     (let module = fst trace_element
      in if signature (ps module) = t then Some module else scan_trace t ps es bt)"

text \<open>Lines 300 to 308, for a trace that is not empty.\<close>

definition resolve_backtrack_to ::
  "nat option \<Rightarrow> (nat \<Rightarrow> predictor) \<Rightarrow> entry list \<Rightarrow> nat option \<Rightarrow> nat option" where
  "resolve_backtrack_to tm ps tr bt =
     (case tm of
        Some t \<Rightarrow> scan_trace t ps (rev tr) bt
      | None \<Rightarrow> (case rev tr of [] \<Rightarrow> bt | e # _ \<Rightarrow> Some (fst e)))"

text \<open>
  Lines 325 to 329:
  \<^verbatim>\<open>failure_traces.setdefault(backtrack_to, {})[suggest_id] = (error_ip, error_op, error_msg)\<close>.
\<close>

definition save_failure_trace ::
  "'k \<Rightarrow> 'i \<Rightarrow> 'v \<Rightarrow> ('k \<times> ('i \<times> 'v) list) list \<Rightarrow> ('k \<times> ('i \<times> 'v) list) list" where
  "save_failure_trace bt suggest_id v fts =
     (let fts1 = dict_setdefault bt [] fts;
          inner = (case dict_get fts1 bt of None \<Rightarrow> [] | Some d \<Rightarrow> d)
      in dict_set bt (dict_set suggest_id v inner) fts1)"

text \<open>
  The \<^verbatim>\<open>except DSPySuggestionError as e\<close> block, lines 297 to 334. \<^verbatim>\<open>e.state[-1]\<close> raises
  \<^verbatim>\<open>IndexError\<close> on an empty list. The two \<^verbatim>\<open>pop\<close> calls change the store of the
  prediction in the last entry of \<^verbatim>\<open>e.state\<close>, which is the object the trace holds.
\<close>

definition on_suggestion_error ::
  "nat option \<Rightarrow> nat \<Rightarrow> string \<Rightarrow> nat \<Rightarrow> locals \<Rightarrow> world \<Rightarrow> (exn + locals) \<times> world" where
  "on_suggestion_error tm suggest_id error_msg state st w =
     (case rev (heap w state) of
        [] \<Rightarrow> (Inl (IndexError ''list index out of range''), w)
      | error_state # earlier \<Rightarrow>
          (if heap w (trace w) \<noteq> [] then
             (let bt = resolve_backtrack_to tm (predictors w) (heap w (trace w)) (backtrack_to st);
                  w1 = (if bt = None then logger_error ''Specified module not found in trace'' w else w);
                  fbs = save_feedback bt error_msg (predictor_feedbacks st);
                  error_ip = fst (snd error_state);
                  error_op = dict_pop ''_assert_traces'' (dict_pop ''_assert_feedback'' (snd (snd error_state)));
                  w2 = w1\<lparr>heap := (heap w1)(state := rev earlier @ [(fst error_state, error_ip, error_op)])\<rparr>;
                  fts = save_failure_trace bt suggest_id (error_ip, error_op, error_msg) (failure_traces st)
              in (Inr (st\<lparr>backtrack_to := bt, predictor_feedbacks := fbs, failure_traces := fts\<rparr>), w2))
           else
             (Inr st, logger_error
                ''UNREACHABLE: No trace available, this should not happen. Is this run time?'' w)))"

definition feedback_field :: field where
  "feedback_field = InputField ''Instruction:'' ''Some instructions you must satisfy'' ''str''"

definition traces_field :: field where
  "traces_field = InputField ''Counter Examples:''
     ''Traces of some incorrect outputs that violate instructions'' ''dsp.passages2text''"

text \<open>
  Lines 251 to 285, for \<^verbatim>\<open>backtrack_to\<close> a step \<open>p\<close>: save the current entry point, extend
  the signature (which can raise), look the step up in the two dictionaries (a missing key
  raises \<^verbatim>\<open>KeyError\<close>), wrap the entry point. An exception leaves the handler, so its
  local variables are gone with it.
\<close>

definition augment :: "nat \<Rightarrow> locals \<Rightarrow> world \<Rightarrow> (exn + locals) \<times> world" where
  "augment p st w =
     (let st1 = st\<lparr>predictors_to_original_forward :=
                     dict_set p (forward (predictors w p)) (predictors_to_original_forward st)\<rparr>
      in case extend_predictor_signature (predictors w p)
                [(''_assert_feedback'', feedback_field), (''_assert_traces'', traces_field)] of
           Inl e \<Rightarrow> (Inl e, w)
         | Inr pr1 \<Rightarrow>
             (let w1 = w\<lparr>predictors := (predictors w)(p := pr1)\<rparr>
              in case dict_get (predictor_feedbacks st1) (Some p) of
                   None \<Rightarrow> (Inl (KeyError ''predictor_feedbacks''), w1)
                 | Some msgs \<Rightarrow>
                     (case dict_get (failure_traces st1) (Some p) of
                        None \<Rightarrow> (Inl (KeyError ''failure_traces''), w1)
                      | Some fts \<Rightarrow>
                          (let feedback_msg = build_error_msg msgs;
                               trace_passages = build_trace_passages fts;
                               pr2 = wrap_forward_with_set_fields pr1
                                       [(''_assert_feedback'', AStr feedback_msg),
                                        (''_assert_traces'', APassages trace_passages)]
                           in (Inr st1, w1\<lparr>predictors := (predictors w1)(p := pr2)\<rparr>)))))"

text \<open>\<^verbatim>\<open>bypass_suggest_handler(func)\<close>.\<close>

definition bypass_suggest_handler :: "pipeline \<Rightarrow> pipeline" where
  "bypass_suggest_handler func = settings_context (Some False) (Some True) func"

text \<open>\<^verbatim>\<open>noop_handler\<close>, \<^verbatim>\<open>bypass_assert_handler\<close> and \<^verbatim>\<open>assert_no_except_handler\<close>.\<close>

definition noop_handler :: "pipeline \<Rightarrow> pipeline" where
  "noop_handler func = settings_context (Some True) (Some True) func"

definition bypass_assert_handler :: "pipeline \<Rightarrow> pipeline" where
  "bypass_assert_handler func = settings_context (Some True) None func"

definition assert_no_except_handler :: "pipeline \<Rightarrow> pipeline" where
  "assert_no_except_handler func w =
     (case func w of
        (Inl (DSPyAssertionError i m s), w1) \<Rightarrow> (Inr PNone, w1)
      | rw \<Rightarrow> rw)"

text \<open>How one iteration of the \<^verbatim>\<open>for\<close> loop ends.\<close>

datatype flow = Continue locals | Break locals | Raise exn

text \<open>
  The head of an iteration, lines 250 to 285: \<^verbatim>\<open>if i > 0 and backtrack_to is not None\<close>
  the resolved step is augmented.
\<close>

definition prepare_attempt ::
  "int \<Rightarrow> locals \<Rightarrow> world \<Rightarrow> event list \<Rightarrow> (exn + locals) \<times> world \<times> event list" where
  "prepare_attempt i st w ev =
     (case backtrack_to st of
        Some p \<Rightarrow>
          (if i > 0
           then (case augment p st w of
                   (Inl e, w1) \<Rightarrow> (Inl e, w1, ev)
                 | (Inr st1, w1) \<Rightarrow> (Inr st1, w1, ev @ [Augmented p]))
           else (Inr st, w, ev))
      | None \<Rightarrow> (Inr st, w, ev))"

text \<open>
  The rest of an iteration, lines 287 to 334: the last iteration runs the pipeline under
  \<^verbatim>\<open>bypass_suggest_handler\<close> and leaves the loop; every other one runs it as it is,
  leaves the loop on a return, handles a \<^verbatim>\<open>DSPySuggestionError\<close> and lets any other
  exception through.
\<close>

definition run_attempt ::
  "pipeline \<Rightarrow> int \<Rightarrow> nat option \<Rightarrow> int \<Rightarrow> locals \<Rightarrow> world \<Rightarrow> event list
     \<Rightarrow> flow \<times> world \<times> event list" where
  "run_attempt func max_backtracks tm i st w ev =
     (if i = max_backtracks then
        (case bypass_suggest_handler func w of
           (Inl e, w2) \<Rightarrow> (Raise e, w2, ev @ [Invoked False True])
         | (Inr r, w2) \<Rightarrow> (Break (st\<lparr>run_result := r\<rparr>), w2, ev @ [Invoked False True]))
      else
        (let ev2 = ev @ [Invoked (bypass_assert w) (bypass_suggest w)]
         in case func w of
              (Inr r, w2) \<Rightarrow> (Break (st\<lparr>run_result := r\<rparr>), w2, ev2)
            | (Inl (DSPySuggestionError suggest_id error_msg state), w2) \<Rightarrow>
                (case on_suggestion_error tm suggest_id error_msg state st w2 of
                   (Inl e, w3) \<Rightarrow> (Raise e, w3, ev2)
                 | (Inr st2, w3) \<Rightarrow> (Continue st2, w3, ev2))
            | (Inl e, w2) \<Rightarrow> (Raise e, w2, ev2)))"

text \<open>One iteration of \<^verbatim>\<open>for i in range(max_backtracks + 1)\<close>.\<close>

definition attempt ::
  "pipeline \<Rightarrow> int \<Rightarrow> nat option \<Rightarrow> int \<Rightarrow> locals \<Rightarrow> world \<Rightarrow> event list
     \<Rightarrow> flow \<times> world \<times> event list" where
  "attempt func max_backtracks tm i st w ev =
     (case prepare_attempt i st w ev of
        (Inl e, w1, ev1) \<Rightarrow> (Raise e, w1, ev1)
      | (Inr st1, w1, ev1) \<Rightarrow> run_attempt func max_backtracks tm i st1 w1 ev1)"

text \<open>
  The \<^verbatim>\<open>for\<close> loop: \<open>n\<close> iterations remain and the next one has index \<open>i\<close>. The result is
  the exception that left the loop, or the local variables after it.
\<close>

fun backtrack_loop ::
  "pipeline \<Rightarrow> int \<Rightarrow> nat option \<Rightarrow> nat \<Rightarrow> int \<Rightarrow> locals \<Rightarrow> world \<Rightarrow> event list
     \<Rightarrow> (exn + locals) \<times> world \<times> event list" where
  "backtrack_loop func max_backtracks tm 0 i st w ev = (Inr st, w, ev)"
| "backtrack_loop func max_backtracks tm (Suc n) i st w ev =
     (case attempt func max_backtracks tm i st w ev of
        (Continue st1, w1, ev1) \<Rightarrow> backtrack_loop func max_backtracks tm n (i + 1) st1 w1 ev1
      | (Break st1, w1, ev1) \<Rightarrow> (Inr st1, w1, ev1)
      | (Raise e, w1, ev1) \<Rightarrow> (Inl e, w1, ev1))"

text \<open>
  Lines 337 to 340: for every saved step, in dictionary order,
  \<^verbatim>\<open>_revert_predictor_signature(predictor, "feedback")\<close> and
  \<^verbatim>\<open>predictor.forward = original_forward\<close>.
\<close>

fun revert_all :: "(nat \<times> fwd) list \<Rightarrow> world \<Rightarrow> event list \<Rightarrow> world \<times> event list" where
  "revert_all [] w ev = (w, ev)"
| "revert_all (item # items) w ev =
     (let predictor = fst item; original_forward = snd item;
          pr = revert_predictor_signature (predictors w predictor) [''feedback''];
          pr1 = pr\<lparr>forward := original_forward\<rparr>
      in revert_all items (w\<lparr>predictors := (predictors w)(predictor := pr1)\<rparr>) (ev @ [Reverted predictor]))"

text \<open>
  \<^verbatim>\<open>suggest_backtrack_handler(func, max_backtracks, target_module=...)(...)\<close>: the wrapper.
  It returns the value or the exception, the state it leaves, and the record of events.
\<close>

definition suggest_backtrack_handler ::
  "pipeline \<Rightarrow> int \<Rightarrow> nat option \<Rightarrow> world \<Rightarrow> (exn + pyval) \<times> world \<times> event list" where
  "suggest_backtrack_handler func max_backtracks tm w =
     (case backtrack_loop func max_backtracks tm (nat (max_backtracks + 1)) 0 init_locals w [] of
        (Inl e, w1, ev1) \<Rightarrow> (Inl e, w1, ev1)
      | (Inr st, w1, ev1) \<Rightarrow>
          (let (w2, ev2) = revert_all (predictors_to_original_forward st) w1 ev1
           in (Inr (run_result st), w2, ev2)))"

section \<open>Sample steps and pipelines\<close>

text \<open>
  A step declared with the fields \<open>question\<close> and \<open>answer\<close>, one declared with
  \<open>context\<close> and \<open>answer\<close> only, and a process state in which every step is of the first
  kind (step \<open>n\<close> has signature \<open>n\<close> and entry point \<open>Forward n\<close>), the trace is the empty
  list at address 0, and both flags are off.
\<close>

definition qa_fields :: "(string \<times> field) list" where
  "qa_fields = [(''question'', InputField ''Question:'' ''the question'' ''str''),
                (''answer'', InputField ''Answer:'' ''the answer'' ''str'')]"

definition ca_fields :: "(string \<times> field) list" where
  "ca_fields = [(''context'', InputField ''Context:'' ''the context'' ''str''),
                (''answer'', InputField ''Answer:'' ''the answer'' ''str'')]"

definition qa_step :: "nat \<Rightarrow> predictor" where
  "qa_step n = \<lparr>signature = n, extended_signature = Template ''Answer the question.'' qa_fields,
                forward = Forward n\<rparr>"

definition ca_step :: "nat \<Rightarrow> predictor" where
  "ca_step n = \<lparr>signature = n, extended_signature = Template ''Answer from the context.'' ca_fields,
                forward = Forward n\<rparr>"

definition world0 :: world where
  "world0 = \<lparr>bypass_assert = False, bypass_suggest = False, trace = 0, heap = (\<lambda>a. []),
             registry = [], uuid_next = 0, logged = [], predictors = qa_step\<rparr>"

text \<open>
  A pipeline that runs the steps \<open>ps\<close> in order (each records a trace entry), then
  constructs the constraints \<open>cs\<close> in order (each a class, a result and a message) and
  returns the answer.
\<close>

definition run_steps :: "nat list \<Rightarrow> world \<Rightarrow> world" where
  "run_steps ps w = fold (\<lambda>p. trace_record (p, [(''question'', ''q'')], [(''answer'', ''a'')])) ps w"

fun check_all :: "(cls \<times> pyval \<times> string) list \<Rightarrow> pipeline" where
  "check_all [] w = (Inr (PStr ''a''), w)"
| "check_all (c # cs) w =
     (case Constraint_init (fst c) (fst (snd c)) (snd (snd c)) None w of
        (Inl e, w1) \<Rightarrow> (Inl e, w1)
      | (Inr b, w1) \<Rightarrow> check_all cs w1)"

definition steps_then_check :: "nat list \<Rightarrow> (cls \<times> pyval \<times> string) list \<Rightarrow> pipeline" where
  "steps_then_check ps cs w = check_all cs (run_steps ps w)"

section \<open>Well-formed registries\<close>




text \<open>Whether a step's current signature has a field named \<open>question\<close>.\<close>

definition has_question :: "predictor \<Rightarrow> bool" where
  "has_question pr = (''question'' \<in> set (dict_keys (kwargs (extended_signature pr))))"

section \<open>Conditions on pipelines and on the handler's variables\<close>




section \<open>Dictionary lemmas\<close>



lemma dict_set_same: "dict_get d k = Some v \<Longrightarrow> dict_set k v d = d"
  by (induction d) (auto split: if_splits simp: prod_eq_iff)







section \<open>Feedback accumulation\<close>



section \<open>Constraint evaluation\<close>






















section \<open>The trace carried by a violation\<close>

lemma trace_trace_record: "trace (trace_record e w) = trace w"
  by (simp add: trace_record_def)

lemma heap_trace_record: "heap (trace_record e w) (trace w) = heap w (trace w) @ [e]"
  by (simp add: trace_record_def)


lemma heap_fold_trace_record:
  "heap (fold trace_record es w) (trace w) = heap w (trace w) @ es"
proof (induction es arbitrary: w)
  case Nil
  show ?case by simp
next
  case (Cons e es)
  have "heap (fold trace_record es (trace_record e w)) (trace (trace_record e w))
          = heap (trace_record e w) (trace (trace_record e w)) @ es"
    by (rule Cons.IH)
  then show ?case by (simp add: trace_trace_record heap_trace_record)
qed

lemma Assert_call_raises:
  assumes "Assert_call self w = (Inl (DSPyAssertionError i m s), w')"
  shows "s = trace w \<and> trace w' = trace w \<and> heap w' = heap w \<and> i = ident self \<and> m = msg self"
  using assms by (auto simp: Assert_call_def logger_error_def split: pyval.splits if_splits)

lemma Suggest_call_raises:
  assumes "Suggest_call self w = (Inl (DSPySuggestionError i m s), w')"
  shows "s = trace w \<and> trace w' = trace w \<and> heap w' = heap w \<and> i = ident self \<and> m = msg self"
  using assms by (auto simp: Suggest_call_def logger_error_def split: pyval.splits if_splits)

text \<open>
  Claim C4, as the code has it. A violation error, hard or soft, carries the trace by
  reference: its \<open>state\<close> is the list object \<^verbatim>\<open>dsp.settings.trace\<close> refers to when the
  error is raised. Read at that moment it is the trace at the moment of failure; entries
  recorded in the trace afterwards are appended to that same list, so the list read
  through the error is the trace at the moment of failure followed by the later entries.
\<close>

theorem C4_trace_by_reference:
  assumes "Assert_call self w = (Inl (DSPyAssertionError i m s), w')
           \<or> Suggest_call self w = (Inl (DSPySuggestionError i m s), w')"
  shows "s = trace w' \<and> heap w' s = heap w (trace w)
         \<and> heap (fold trace_record es w') s = heap w (trace w) @ es"
proof -
  have r: "s = trace w \<and> trace w' = trace w \<and> heap w' = heap w"
    using assms Assert_call_raises [of self w i m s w'] Suggest_call_raises [of self w i m s w']
    by blast
  have "heap (fold trace_record es w') (trace w') = heap w' (trace w') @ es"
    by (rule heap_fold_trace_record)
  then show ?thesis using r by simp
qed

theorem C4_trace_by_reference_witness:
  "Suggest_call \<lparr>cls = Suggest, ident = 3, result = PBool False, msg = ''m'', target_module = None\<rparr>
      (run_steps [0] world0)
     = (Inl (DSPySuggestionError 3 ''m'' 0), logger_error ''SuggestionFailed: m'' (run_steps [0] world0))
   \<and> heap (logger_error ''SuggestionFailed: m'' (run_steps [0] world0)) 0
       = [(0, [(''question'', ''q'')], [(''answer'', ''a'')])]
   \<and> heap (fold trace_record [(1, [], [])] (logger_error ''SuggestionFailed: m'' (run_steps [0] world0))) 0
       = [(0, [(''question'', ''q'')], [(''answer'', ''a'')]), (1, [], [])]"
proof -
  have c: "Suggest_call \<lparr>cls = Suggest, ident = 3, result = PBool False, msg = ''m'', target_module = None\<rparr>
      (run_steps [0] world0)
     = (Inl (DSPySuggestionError 3 ''m'' 0), logger_error ''SuggestionFailed: m'' (run_steps [0] world0))"
    by (simp add: Suggest_call_def run_steps_def trace_record_def world0_def)
  have h: "heap (run_steps [0] world0) (trace (run_steps [0] world0))
             = [(0, [(''question'', ''q'')], [(''answer'', ''a'')])]"
    by (simp add: run_steps_def trace_record_def world0_def)
  show ?thesis
    using C4_trace_by_reference [OF disjI2, OF c, of "[(1, [], [])]"] c h
    by simp
qed

text \<open>
  Claim C4 as stated fails: a soft violation is raised after one trace entry, then a
  second entry is recorded, and the list carried by the error has two entries. The same
  holds for a hard violation.
\<close>

theorem C4_snapshot_counterexample:
  "fst (Suggest_call \<lparr>cls = Suggest, ident = 3, result = PBool False, msg = ''m'', target_module = None\<rparr>
          (run_steps [0] world0)) = Inl (DSPySuggestionError 3 ''m'' 0)
   \<and> heap (snd (Suggest_call \<lparr>cls = Suggest, ident = 3, result = PBool False, msg = ''m'', target_module = None\<rparr>
          (run_steps [0] world0))) 0 = [(0, [(''question'', ''q'')], [(''answer'', ''a'')])]
   \<and> heap (trace_record (1, [], [])
        (snd (Suggest_call \<lparr>cls = Suggest, ident = 3, result = PBool False, msg = ''m'', target_module = None\<rparr>
          (run_steps [0] world0)))) 0
       = [(0, [(''question'', ''q'')], [(''answer'', ''a'')]), (1, [], [])]
   \<and> fst (Assert_call \<lparr>cls = Assert, ident = 4, result = PBool False, msg = ''h'', target_module = None\<rparr>
          (run_steps [0] world0)) = Inl (DSPyAssertionError 4 ''h'' 0)
   \<and> heap (trace_record (1, [], [])
        (snd (Assert_call \<lparr>cls = Assert, ident = 4, result = PBool False, msg = ''h'', target_module = None\<rparr>
          (run_steps [0] world0)))) 0
       = [(0, [(''question'', ''q'')], [(''answer'', ''a'')]), (1, [], [])]"
  by (simp add: Suggest_call_def Assert_call_def run_steps_def trace_record_def world0_def
        logger_error_def)

section \<open>Resolving the step to backtrack to\<close>

lemma scan_trace_skip:
  "\<forall>y \<in> set zs. signature (ps (fst y)) \<noteq> t \<Longrightarrow>
     scan_trace t ps (zs @ rest) bt = scan_trace t ps rest bt"
  by (induction zs) (auto simp: Let_def)

lemma scan_trace_last_match:
  assumes "signature (ps (fst e)) = t" and "\<forall>y \<in> set ys. signature (ps (fst y)) \<noteq> t"
  shows "scan_trace t ps (rev (xs @ e # ys)) bt = Some (fst e)"
proof -
  have "scan_trace t ps (rev ys @ e # rev xs) bt = scan_trace t ps (e # rev xs) bt"
    using assms(2) by (intro scan_trace_skip) simp
  then show ?thesis using assms(1) by (simp add: Let_def)
qed

lemma scan_trace_no_match:
  "\<forall>y \<in> set zs. signature (ps (fst y)) \<noteq> t \<Longrightarrow> scan_trace t ps zs bt = bt"
  using scan_trace_skip [of zs ps t "[]" bt] by simp

lemma resolve_no_target:
  "tr \<noteq> [] \<Longrightarrow> resolve_backtrack_to None ps tr bt = Some (fst (last tr))"
  by (cases tr rule: rev_cases) (auto simp: resolve_backtrack_to_def)

lemma on_suggestion_error_resolves:
  assumes "heap w state \<noteq> []" and "heap w (trace w) \<noteq> []"
  shows "\<exists>st' w'. on_suggestion_error tm suggest_id error_msg state st w = (Inr st', w')
           \<and> backtrack_to st' = resolve_backtrack_to tm (predictors w) (heap w (trace w)) (backtrack_to st)
           \<and> predictors w' = predictors w
           \<and> bypass_assert w' = bypass_assert w \<and> bypass_suggest w' = bypass_suggest w"
proof -
  obtain error_state earlier where r: "rev (heap w state) = error_state # earlier"
    using assms(1) by (cases "rev (heap w state)") auto
  show ?thesis
    using assms(2) r by (simp add: on_suggestion_error_def Let_def logger_error_def)
qed

text \<open>
  Claim C6. When the handler catches a soft violation whose trace is not empty: with no
  target configured it resolves the step of the most recent trace entry; with a target
  configured it resolves the step of the last entry whose step has the target signature
  (the first one met scanning backward), whatever more recent entries there are.
\<close>

theorem C6_target_resolution:
  assumes "heap w state \<noteq> []" and "heap w (trace w) = tr" and "tr \<noteq> []"
  shows "\<exists>st' w'. on_suggestion_error tm suggest_id error_msg state st w = (Inr st', w')
           \<and> (tm = None \<longrightarrow> backtrack_to st' = Some (fst (last tr)))
           \<and> (\<forall>t xs e ys. tm = Some t \<and> tr = xs @ e # ys \<and> signature (predictors w (fst e)) = t
                  \<and> (\<forall>y \<in> set ys. signature (predictors w (fst y)) \<noteq> t)
                \<longrightarrow> backtrack_to st' = Some (fst e))"
proof -
  obtain st' w' where r: "on_suggestion_error tm suggest_id error_msg state st w = (Inr st', w')"
    and b: "backtrack_to st' = resolve_backtrack_to tm (predictors w) tr (backtrack_to st)"
    using on_suggestion_error_resolves [of w state tm suggest_id error_msg st] assms by auto
  have "tm = None \<longrightarrow> backtrack_to st' = Some (fst (last tr))"
    using b assms(3) by (auto simp: resolve_no_target)
  moreover have "\<forall>t xs e ys. tm = Some t \<and> tr = xs @ e # ys \<and> signature (predictors w (fst e)) = t
                  \<and> (\<forall>y \<in> set ys. signature (predictors w (fst y)) \<noteq> t)
                \<longrightarrow> backtrack_to st' = Some (fst e)"
    using b by (auto simp: resolve_backtrack_to_def scan_trace_last_match simp del: rev_append)
  ultimately show ?thesis using r by blast
qed

text \<open>
  The trace \<open>[stepA, stepB, stepA]\<close> with \<open>stepA = 0\<close> and \<open>stepB = 1\<close>: no target resolves
  step 0, the target signature of step 1 resolves step 1.
\<close>

theorem C6_target_resolution_witness:
  "heap (run_steps [0, 1, 0] world0) 0
     = [(0, [(''question'', ''q'')], [(''answer'', ''a'')]),
        (1, [(''question'', ''q'')], [(''answer'', ''a'')]),
        (0, [(''question'', ''q'')], [(''answer'', ''a'')])]
   \<and> backtrack_to (projr (fst (on_suggestion_error None 0 ''m'' 0 init_locals (run_steps [0, 1, 0] world0))))
       = Some 0
   \<and> backtrack_to (projr (fst (on_suggestion_error (Some 1) 0 ''m'' 0 init_locals (run_steps [0, 1, 0] world0))))
       = Some 1"
proof -
  let ?w = "run_steps [0, 1, 0] world0"
  let ?e = "(0::nat, [(''question'', ''q'')], [(''answer'', ''a'')])"
  let ?f = "(1::nat, [(''question'', ''q'')], [(''answer'', ''a'')])"
  have tr: "trace ?w = 0" by (simp add: run_steps_def trace_record_def world0_def)
  have h: "heap ?w 0 = [?e, ?f, ?e]"
    by (simp add: run_steps_def trace_record_def world0_def)
  have h1: "heap ?w 0 \<noteq> []" and h2: "heap ?w (trace ?w) = [?e, ?f, ?e]" and h3: "[?e, ?f, ?e] \<noteq> []"
    using h tr by simp_all
  have sg: "signature (predictors ?w 1) = 1" "signature (predictors ?w 0) \<noteq> 1"
    by (simp_all add: run_steps_def trace_record_def world0_def qa_step_def)
  have a: "backtrack_to (projr (fst (on_suggestion_error None 0 ''m'' 0 init_locals ?w))) = Some 0"
    using C6_target_resolution [OF h1 h2 h3, of None 0 "''m''" init_locals] by auto
  have "\<exists>st' w'. on_suggestion_error (Some 1) 0 ''m'' 0 init_locals ?w = (Inr st', w')
          \<and> backtrack_to st' = Some 1"
    using C6_target_resolution [OF h1 h2 h3, of "Some 1" 0 "''m''" init_locals] sg
    by (metis append_Cons append_Nil fst_conv set_ConsD empty_iff empty_set) 
  then have b: "backtrack_to (projr (fst (on_suggestion_error (Some 1) 0 ''m'' 0 init_locals ?w))) = Some 1"
    by auto
  show ?thesis using h a b by simp
qed

section \<open>Extending a signature\<close>

lemma list_index_None: "x \<notin> set xs \<Longrightarrow> list_index x xs = None"
  by (induction xs) auto

lemma list_index_first: "x \<notin> set pre \<Longrightarrow> list_index x (pre @ x # post) = Some (length pre)"
  by (induction pre) auto

lemma dict_set_keyed:
  "dict_set k (v k) (map (\<lambda>k. (k, v k)) A) = map (\<lambda>k. (k, v k)) (if k \<in> set A then A else A @ [k])"
  by (induction A) auto

lemma fold_dict_set_keyed:
  "fold (\<lambda>k d. dict_set k (v k) d) L (map (\<lambda>k. (k, v k)) A)
     = map (\<lambda>k. (k, v k)) (fold (\<lambda>k A. if k \<in> set A then A else A @ [k]) L A)"
proof (induction L arbitrary: A)
  case Nil
  show ?case by simp
next
  case (Cons k L)
  show ?case
    using Cons.IH [of "if k \<in> set A then A else A @ [k]"]
    by (simp only: fold_Cons comp_apply dict_set_keyed)
qed

lemma fold_add_new_distinct:
  "distinct xs \<Longrightarrow>
     fold (\<lambda>k A. if k \<in> set A then A else A @ [k]) xs A = A @ filter (\<lambda>k. k \<notin> set A) xs"
proof (induction xs arbitrary: A)
  case Nil
  show ?case by simp
next
  case (Cons x xs)
  have nx: "x \<notin> set xs" and d: "distinct xs" using Cons.prems by auto
  have f: "filter (\<lambda>k. k \<noteq> x \<and> k \<notin> set A) xs = filter (\<lambda>k. k \<notin> set A) xs"
    using nx by (intro filter_cong) auto
  show ?case
  proof (cases "x \<in> set A")
    case True
    then show ?thesis using Cons.IH [OF d, of A] by simp
  next
    case False
    then show ?thesis using Cons.IH [OF d, of "A @ [x]"] f by simp
  qed
qed

lemma dict_get_distinct:
  "distinct (map fst d) \<Longrightarrow> kv \<in> set d \<Longrightarrow> dict_get d (fst kv) = Some (snd kv)"
  by (induction d) (auto simp: rev_image_eqI)

lemma map_keyed_sub:
  assumes "\<forall>kv \<in> set S. v (fst kv) = snd kv"
  shows "map (\<lambda>k. (k, v k)) (map fst S) = S"
  using assms by (induction S) auto

lemma extend_predictor_signature_no_question:
  assumes "\<not> has_question pr"
  shows "extend_predictor_signature pr kw = Inl (ValueError '''question' is not in list'')"
  using assms list_index_None [of "''question''" "dict_keys (kwargs (extended_signature pr))"]
  by (simp add: extend_predictor_signature_def has_question_def Let_def)

lemma extend_predictor_signature_question:
  assumes k: "kwargs (extended_signature pr) = P @ (''question'', fq) # R"
    and d: "distinct (dict_keys (P @ (''question'', fq) # R))"
    and nf: "''_assert_feedback'' \<notin> set (dict_keys P)"
    and nt: "''_assert_traces'' \<notin> set (dict_keys P)"
  shows "extend_predictor_signature pr
           [(''_assert_feedback'', feedback_field), (''_assert_traces'', traces_field)]
         = Inr (pr\<lparr>extended_signature :=
                  Template (instructions (extended_signature pr))
                    (P @ [(''question'', fq), (''_assert_feedback'', feedback_field),
                          (''_assert_traces'', traces_field)]
                       @ filter (\<lambda>kv. fst kv \<noteq> ''_assert_feedback'' \<and> fst kv \<noteq> ''_assert_traces'') R)\<rparr>)"
proof -
  let ?old = "P @ (''question'', fq) # R"
  let ?kw = "[(''_assert_feedback'', feedback_field), (''_assert_traces'', traces_field)]"
  let ?v = "\<lambda>key. case dict_get ?kw key of
                     Some f \<Rightarrow> f
                   | None \<Rightarrow> (case dict_get ?old key of Some f \<Rightarrow> f | None \<Rightarrow> NoField)"
  let ?L1 = "map fst P @ [''question'', ''_assert_feedback'', ''_assert_traces'']"
  let ?R' = "filter (\<lambda>kv. fst kv \<noteq> ''_assert_feedback'' \<and> fst kv \<noteq> ''_assert_traces'') R"
  have dP: "distinct (map fst P)" and dR: "distinct (map fst R)"
    and qP: "''question'' \<notin> set (map fst P)" and qR: "''question'' \<notin> set (map fst R)"
    and PR: "set (map fst P) \<inter> set (map fst R) = {}"
    using d by (auto simp: dict_keys_def)
  have nf': "''_assert_feedback'' \<notin> set (map fst P)" and nt': "''_assert_traces'' \<notin> set (map fst P)"
    using nf nt by (simp_all add: dict_keys_def)
  have ix: "list_index ''question'' (dict_keys ?old) = Some (length P)"
    using list_index_first [of "''question''" "map fst P" "map fst R"] qP
    by (simp add: dict_keys_def)
  have ins: "fold (\<lambda>key ks. list_insert (length P + 1) key ks) (rev (dict_keys ?kw)) (dict_keys ?old)
               = ?L1 @ map fst R"
    by (simp add: dict_keys_def list_insert_def)
  have dL1: "distinct ?L1" using dP qP nf' nt' by auto
  have a1: "fold (\<lambda>k A. if k \<in> set A then A else A @ [k]) ?L1 [] = ?L1"
    using fold_add_new_distinct [OF dL1, of "[]"] by simp
  have flt: "filter (\<lambda>k. k \<notin> set ?L1) (map fst R) = map fst ?R'"
  proof -
    have "filter (\<lambda>k. k \<notin> set ?L1) (map fst R)
            = filter (\<lambda>k. k \<noteq> ''_assert_feedback'' \<and> k \<noteq> ''_assert_traces'') (map fst R)"
      using PR qR by (intro filter_cong) (auto simp: rev_image_eqI)
    then show ?thesis by (simp add: filter_map comp_def)
  qed
  have a2: "fold (\<lambda>k A. if k \<in> set A then A else A @ [k]) (?L1 @ map fst R) []
              = ?L1 @ map fst ?R'"
    using fold_add_new_distinct [OF dR, of ?L1] a1 flt by (simp only: fold_append comp_apply)
  have dold: "distinct (map fst ?old)" using d by (simp add: dict_keys_def)
  have vP: "\<forall>kv \<in> set P. ?v (fst kv) = snd kv"
  proof
    fix kv assume m: "kv \<in> set P"
    then have "fst kv \<noteq> ''_assert_feedback''" "fst kv \<noteq> ''_assert_traces''"
      using nf' nt' by (auto simp: rev_image_eqI)
    moreover have "dict_get ?old (fst kv) = Some (snd kv)"
      using dict_get_distinct [OF dold, of kv] m by simp
    ultimately show "?v (fst kv) = snd kv" by simp
  qed
  have vR: "\<forall>kv \<in> set ?R'. ?v (fst kv) = snd kv"
  proof
    fix kv assume m: "kv \<in> set ?R'"
    then have "fst kv \<noteq> ''_assert_feedback''" "fst kv \<noteq> ''_assert_traces''" "kv \<in> set R"
      by auto
    moreover have "dict_get ?old (fst kv) = Some (snd kv)"
      using dict_get_distinct [OF dold, of kv] \<open>kv \<in> set R\<close> by simp
    ultimately show "?v (fst kv) = snd kv" by simp
  qed
  have vq: "?v ''question'' = fq"
    using dict_get_distinct [OF dold, of "(''question'', fq)"] by simp
  have "fold (\<lambda>k dd. dict_set k (?v k) dd) (?L1 @ map fst R) []
          = map (\<lambda>k. (k, ?v k)) (?L1 @ map fst ?R')"
    using fold_dict_set_keyed [of ?v "?L1 @ map fst R" "[]"] a2 by simp
  also have "\<dots> = map (\<lambda>k. (k, ?v k)) (map fst P)
                  @ [(''question'', ?v ''question''), (''_assert_feedback'', feedback_field),
                     (''_assert_traces'', traces_field)]
                  @ map (\<lambda>k. (k, ?v k)) (map fst ?R')"
    by simp
  also have "\<dots> = P @ [(''question'', fq), (''_assert_feedback'', feedback_field),
                        (''_assert_traces'', traces_field)] @ ?R'"
    using map_keyed_sub [OF vP] map_keyed_sub [OF vR] vq by simp
  finally have ext: "fold (\<lambda>k dd. dict_set k (?v k) dd) (?L1 @ map fst R) []
      = P @ [(''question'', fq), (''_assert_feedback'', feedback_field),
             (''_assert_traces'', traces_field)] @ ?R'" .
  have E: "extend_predictor_signature pr ?kw
      = Inr (pr\<lparr>extended_signature :=
               Template (instructions (extended_signature pr))
                 (fold (\<lambda>k dd. dict_set k (?v k) dd)
                    (fold (\<lambda>key ks. list_insert (length P + 1) key ks) (rev (dict_keys ?kw))
                       (dict_keys ?old)) [])\<rparr>)"
    by (simp only: extend_predictor_signature_def Let_def k ix option.case)
  show ?thesis
    by (simp only: E ins ext)
qed


lemma augment_no_question:
  assumes "\<not> has_question (predictors w p)"
  shows "augment p st w = (Inl (ValueError '''question' is not in list''), w)"
  by (simp add: augment_def Let_def extend_predictor_signature_no_question [OF assms])

lemma backtrack_loop_no_question:
  assumes "\<not> has_question (predictors w p)" and "0 < i" and "backtrack_to st = Some p"
  shows "backtrack_loop func max_backtracks tm (Suc n) i st w ev
           = (Inl (ValueError '''question' is not in list''), w, ev)"
  using assms(2,3)
  by (simp add: attempt_def prepare_attempt_def augment_no_question [OF assms(1)])

text \<open>
  Claim C9. Extending a signature needs a field named \<open>question\<close>. Without one the
  extension raises \<open>ValueError\<close> (whatever fields are to be added), and an iteration of
  the handler that is to augment such a step ends the loop with that error, without
  calling the pipeline and without changing anything. With one, and with distinct field
  names of which none before \<open>question\<close> is already called \<open>_assert_feedback\<close> or
  \<open>_assert_traces\<close>, the new signature has the fields before \<open>question\<close>, then
  \<open>question\<close>, \<open>_assert_feedback\<close>, \<open>_assert_traces\<close>, then the other fields that
  followed \<open>question\<close>, in their order and with their descriptors.
\<close>

theorem C9_extend_needs_question:
  "(\<not> has_question (predictors w p) \<longrightarrow>
      extend_predictor_signature (predictors w p) kw = Inl (ValueError '''question' is not in list'')
      \<and> (0 < i \<and> backtrack_to st = Some p \<longrightarrow>
           backtrack_loop func max_backtracks tm (Suc n) i st w ev
             = (Inl (ValueError '''question' is not in list''), w, ev)))
   \<and> (kwargs (extended_signature pr) = P @ (''question'', fq) # R
        \<and> distinct (dict_keys (P @ (''question'', fq) # R))
        \<and> ''_assert_feedback'' \<notin> set (dict_keys P) \<and> ''_assert_traces'' \<notin> set (dict_keys P) \<longrightarrow>
      extend_predictor_signature pr
          [(''_assert_feedback'', feedback_field), (''_assert_traces'', traces_field)]
        = Inr (pr\<lparr>extended_signature :=
                 Template (instructions (extended_signature pr))
                   (P @ [(''question'', fq), (''_assert_feedback'', feedback_field),
                         (''_assert_traces'', traces_field)]
                      @ filter (\<lambda>kv. fst kv \<noteq> ''_assert_feedback'' \<and> fst kv \<noteq> ''_assert_traces'') R)\<rparr>))"
  using extend_predictor_signature_no_question [of "predictors w p" kw]
    backtrack_loop_no_question [of w p i st func max_backtracks tm n ev]
    extend_predictor_signature_question [of pr P fq R]
  by blast

text \<open>
  A step with the fields \<open>context\<close> and \<open>answer\<close> is resolved and the next iteration
  raises; a step with \<open>question\<close> and \<open>answer\<close> gets the two fields in between.
\<close>

theorem C9_extend_needs_question_witness:
  "\<not> has_question (predictors (world0\<lparr>predictors := ca_step\<rparr>) 0)
   \<and> backtrack_loop (steps_then_check [0] [(Suggest, PBool False, ''m'')]) 3 None (Suc 2) 1 (init_locals\<lparr>backtrack_to := Some 0\<rparr>)
        (world0\<lparr>predictors := ca_step\<rparr>) []
       = (Inl (ValueError '''question' is not in list''), world0\<lparr>predictors := ca_step\<rparr>, [])
   \<and> dict_keys (kwargs (extended_signature (projr (extend_predictor_signature (qa_step 0)
          [(''_assert_feedback'', feedback_field), (''_assert_traces'', traces_field)]))))
       = [''question'', ''_assert_feedback'', ''_assert_traces'', ''answer'']"
proof -
  have nq: "\<not> has_question (predictors (world0\<lparr>predictors := ca_step\<rparr>) 0)"
    by (simp add: has_question_def world0_def ca_step_def ca_fields_def Template_def dict_keys_def)
  have k: "kwargs (extended_signature (qa_step 0))
             = [] @ (''question'', InputField ''Question:'' ''the question'' ''str'')
                  # [(''answer'', InputField ''Answer:'' ''the answer'' ''str'')]"
    by (simp add: qa_step_def qa_fields_def Template_def)
  have d: "distinct (dict_keys ([] @ (''question'', InputField ''Question:'' ''the question'' ''str'')
                  # [(''answer'', InputField ''Answer:'' ''the answer'' ''str'')]))"
    by (simp add: dict_keys_def)
  have e: "''_assert_feedback'' \<notin> set (dict_keys ([] :: (string \<times> field) list))
           \<and> ''_assert_traces'' \<notin> set (dict_keys ([] :: (string \<times> field) list))"
    by (simp add: dict_keys_def)
  show ?thesis
    using C9_extend_needs_question [of "world0\<lparr>predictors := ca_step\<rparr>" 0 "[]" 1
            "init_locals\<lparr>backtrack_to := Some 0\<rparr>"
            "steps_then_check [0] [(Suggest, PBool False, ''m'')]" 3 None 2 "[]" "qa_step 0" "[]"
            "InputField ''Question:'' ''the question'' ''str''"
            "[(''answer'', InputField ''Answer:'' ''the answer'' ''str'')]"]
      nq k d e
    by (simp add: Template_def dict_keys_def)
qed

section \<open>The forced final attempt\<close>

lemma bypass_suggest_handler_run:
  "bypass_suggest_handler func w =
     (fst (func (w\<lparr>bypass_assert := False, bypass_suggest := True\<rparr>)),
      (snd (func (w\<lparr>bypass_assert := False, bypass_suggest := True\<rparr>)))
        \<lparr>bypass_assert := bypass_assert w, bypass_suggest := bypass_suggest w\<rparr>)"
  by (simp add: bypass_suggest_handler_def settings_context_def Let_def split: prod.splits)

lemma backtrack_loop_last:
  assumes "prepare_attempt max_backtracks st w ev = (Inr st1, w1, ev1)"
  shows "backtrack_loop func max_backtracks tm (Suc n) max_backtracks st w ev =
           (case bypass_suggest_handler func w1 of
              (Inl e, w2) \<Rightarrow> (Inl e, w2, ev1 @ [Invoked False True])
            | (Inr r, w2) \<Rightarrow> (Inr (st1\<lparr>run_result := r\<rparr>), w2, ev1 @ [Invoked False True]))"
  using assms by (simp add: attempt_def run_attempt_def split: prod.splits sum.splits)

text \<open>
  Claim C10. The last iteration of the handler (index \<open>max_backtracks\<close>), once its head
  has gone through, calls the pipeline with \<open>bypass_suggest\<close> set and \<open>bypass_assert\<close>
  cleared, whatever the two flags were, and puts the two flags back afterwards. A hard
  constraint whose result is \<open>False\<close>, evaluated in the state of that call, raises
  \<open>DSPyAssertionError\<close>.
\<close>

theorem C10_forced_attempt_flags:
  "(prepare_attempt max_backtracks st w ev = (Inr st1, w1, ev1) \<longrightarrow>
      backtrack_loop func max_backtracks tm (Suc n) max_backtracks st w ev =
        (case func (w1\<lparr>bypass_assert := False, bypass_suggest := True\<rparr>) of
           (Inl e, w2) \<Rightarrow>
             (Inl e, w2\<lparr>bypass_assert := bypass_assert w1, bypass_suggest := bypass_suggest w1\<rparr>,
              ev1 @ [Invoked False True])
         | (Inr r, w2) \<Rightarrow>
             (Inr (st1\<lparr>run_result := r\<rparr>),
              w2\<lparr>bypass_assert := bypass_assert w1, bypass_suggest := bypass_suggest w1\<rparr>,
              ev1 @ [Invoked False True])))
   \<and> (result self = PBool False \<longrightarrow>
        Assert_call self (w1\<lparr>bypass_assert := False, bypass_suggest := True\<rparr>)
          = (Inl (DSPyAssertionError (ident self) (msg self) (trace w1)),
             logger_error (''AssertionError: '' @ msg self)
               (w1\<lparr>bypass_assert := False, bypass_suggest := True\<rparr>)))"
proof (intro conjI impI)
  assume p: "prepare_attempt max_backtracks st w ev = (Inr st1, w1, ev1)"
  show "backtrack_loop func max_backtracks tm (Suc n) max_backtracks st w ev =
        (case func (w1\<lparr>bypass_assert := False, bypass_suggest := True\<rparr>) of
           (Inl e, w2) \<Rightarrow>
             (Inl e, w2\<lparr>bypass_assert := bypass_assert w1, bypass_suggest := bypass_suggest w1\<rparr>,
              ev1 @ [Invoked False True])
         | (Inr r, w2) \<Rightarrow>
             (Inr (st1\<lparr>run_result := r\<rparr>),
              w2\<lparr>bypass_assert := bypass_assert w1, bypass_suggest := bypass_suggest w1\<rparr>,
              ev1 @ [Invoked False True]))"
    unfolding backtrack_loop_last [OF p] bypass_suggest_handler_run
    by (simp split: prod.splits sum.splits)
next
  assume "result self = PBool False"
  then show "Assert_call self (w1\<lparr>bypass_assert := False, bypass_suggest := True\<rparr>)
          = (Inl (DSPyAssertionError (ident self) (msg self) (trace w1)),
             logger_error (''AssertionError: '' @ msg self)
               (w1\<lparr>bypass_assert := False, bypass_suggest := True\<rparr>))"
    by (simp add: Assert_call_def)
qed

text \<open>
  The hard-bypass flag is on when the handler is called with \<open>max_backtracks = 0\<close>; the
  pipeline runs one step and then a hard constraint that fails: the handler raises the hard
  violation, and the flag is on again afterwards.
\<close>

theorem C10_forced_attempt_flags_witness:
  "prepare_attempt 0 init_locals (world0\<lparr>bypass_assert := True\<rparr>) []
     = (Inr init_locals, world0\<lparr>bypass_assert := True\<rparr>, [])
   \<and> fst (backtrack_loop (steps_then_check [0] [(Assert, PBool False, ''h'')]) 0 None (Suc 0) 0
        init_locals (world0\<lparr>bypass_assert := True\<rparr>) [])
       = Inl (DSPyAssertionError 0 ''h'' 0)
   \<and> fst (suggest_backtrack_handler (steps_then_check [0] [(Assert, PBool False, ''h'')]) 0 None
        (world0\<lparr>bypass_assert := True\<rparr>))
       = Inl (DSPyAssertionError 0 ''h'' 0)
   \<and> bypass_assert (fst (snd (suggest_backtrack_handler
        (steps_then_check [0] [(Assert, PBool False, ''h'')]) 0 None
        (world0\<lparr>bypass_assert := True\<rparr>))))"
proof -
  let ?w = "world0\<lparr>bypass_assert := True\<rparr>"
  let ?f = "steps_then_check [0] [(Assert, PBool False, ''h'')]"
  have p: "prepare_attempt 0 init_locals ?w [] = (Inr init_locals, ?w, [])"
    by (simp add: prepare_attempt_def init_locals_def)
  have r: "fst (?f (?w\<lparr>bypass_assert := False, bypass_suggest := True\<rparr>))
             = Inl (DSPyAssertionError 0 ''h'' 0)"
    by code_simp
  have l: "fst (backtrack_loop ?f 0 None (Suc 0) 0 init_locals ?w []) = Inl (DSPyAssertionError 0 ''h'' 0)"
    using C10_forced_attempt_flags [of 0 init_locals ?w "[]" init_locals ?w "[]" ?f None 0
            "\<lparr>cls = Assert, ident = 0, result = PBool False, msg = ''h'', target_module = None\<rparr>"]
      p r
    by (auto split: prod.splits sum.splits)
  have h: "fst (suggest_backtrack_handler ?f 0 None ?w) = Inl (DSPyAssertionError 0 ''h'' 0)"
    by code_simp
  have b: "bypass_assert (fst (snd (suggest_backtrack_handler ?f 0 None ?w)))"
    by code_simp
  show ?thesis using p l h b by simp
qed

section \<open>A target that matches no trace entry\<close>

lemma resolve_backtrack_to_no_match:
  assumes "\<forall>e \<in> set tr. signature (ps (fst e)) \<noteq> t"
  shows "resolve_backtrack_to (Some t) ps tr bt = bt"
  using assms scan_trace_no_match [of "rev tr" ps t bt]
  by (simp add: resolve_backtrack_to_def)

lemma on_suggestion_error_unresolved:
  assumes "heap w state \<noteq> []" and "heap w (trace w) \<noteq> []"
    and "\<forall>e \<in> set (heap w (trace w)). signature (predictors w (fst e)) \<noteq> t"
    and "backtrack_to st = None"
  shows "\<exists>st' w'. on_suggestion_error (Some t) suggest_id error_msg state st w = (Inr st', w')
           \<and> backtrack_to st' = None
           \<and> predictors_to_original_forward st' = predictors_to_original_forward st
           \<and> predictor_feedbacks st' = save_feedback None error_msg (predictor_feedbacks st)
           \<and> logged w' = logged w @ [''Specified module not found in trace'']
           \<and> predictors w' = predictors w"
proof -
  obtain error_state earlier where r: "rev (heap w state) = error_state # earlier"
    using assms(1) by (cases "rev (heap w state)") auto
  have b: "resolve_backtrack_to (Some t) (predictors w) (heap w (trace w)) (backtrack_to st) = None"
    using resolve_backtrack_to_no_match [OF assms(3)] assms(4) by simp
  show ?thesis
    using assms(2) r b by (simp add: on_suggestion_error_def Let_def logger_error_def)
qed

text \<open>
  Claim C5, as the code has it. The handler catches a soft violation in an iteration that
  is not the last, the trace is not empty, a target is configured that the step of no
  trace entry has, and no step was resolved before. Then the handler logs
  \<open>Specified module not found in trace\<close>, records the message under the key \<open>None\<close>,
  changes no step, and goes on with the next iteration, whose head augments nothing.
\<close>

theorem C5_unresolved_target_continues:
  assumes "i \<noteq> max_backtracks"
    and "func w = (Inl (DSPySuggestionError suggest_id error_msg state), w2)"
    and "heap w2 state \<noteq> []" and "heap w2 (trace w2) \<noteq> []"
    and "\<forall>e \<in> set (heap w2 (trace w2)). signature (predictors w2 (fst e)) \<noteq> t"
    and "backtrack_to st = None"
  shows "\<exists>st' w3 ev'.
           backtrack_loop func max_backtracks (Some t) (Suc n) i st w ev
             = backtrack_loop func max_backtracks (Some t) n (i + 1) st' w3 ev'
           \<and> ev' = ev @ [Invoked (bypass_assert w) (bypass_suggest w)]
           \<and> backtrack_to st' = None
           \<and> predictor_feedbacks st' = save_feedback None error_msg (predictor_feedbacks st)
           \<and> logged w3 = logged w2 @ [''Specified module not found in trace'']
           \<and> predictors w3 = predictors w2
           \<and> prepare_attempt (i + 1) st' w3 ev' = (Inr st', w3, ev')"
proof -
  obtain st' w3 where o: "on_suggestion_error (Some t) suggest_id error_msg state st w2 = (Inr st', w3)"
    and f: "backtrack_to st' = None"
      "predictor_feedbacks st' = save_feedback None error_msg (predictor_feedbacks st)"
      "logged w3 = logged w2 @ [''Specified module not found in trace'']"
      "predictors w3 = predictors w2"
    using on_suggestion_error_unresolved [OF assms(3,4,5,6), of suggest_id error_msg] by blast
  have p: "prepare_attempt i st w ev = (Inr st, w, ev)"
    using assms(6) by (simp add: prepare_attempt_def)
  have "backtrack_loop func max_backtracks (Some t) (Suc n) i st w ev
          = backtrack_loop func max_backtracks (Some t) n (i + 1) st' w3
              (ev @ [Invoked (bypass_assert w) (bypass_suggest w)])"
    using assms(1,2) o p by (simp add: attempt_def run_attempt_def Let_def)
  moreover have "prepare_attempt (i + 1) st' w3 (ev @ [Invoked (bypass_assert w) (bypass_suggest w)])
                   = (Inr st', w3, ev @ [Invoked (bypass_assert w) (bypass_suggest w)])"
    using f(1) by (simp add: prepare_attempt_def)
  ultimately show ?thesis using f by blast
qed

lemma run_steps_single:
  "run_steps [p] w = trace_record (p, [(''question'', ''q'')], [(''answer'', ''a'')]) w"
  by (simp add: run_steps_def)

text \<open>
  Step 0 (signature 0) runs, the soft constraint fails, the target is signature 5.
\<close>

theorem C5_unresolved_target_continues_witness:
  "(\<exists>st' w3.
      backtrack_loop (steps_then_check [0] [(Suggest, PBool False, ''m'')]) 2 (Some 5) (Suc 2) 0
          init_locals world0 []
        = backtrack_loop (steps_then_check [0] [(Suggest, PBool False, ''m'')]) 2 (Some 5) 2 1
            st' w3 [Invoked False False]
      \<and> backtrack_to st' = None
      \<and> predictor_feedbacks st' = [(None, [''m''])]
      \<and> logged w3 = [''SuggestionFailed: m'', ''Specified module not found in trace''])"
proof -
  let ?f = "steps_then_check [0] [(Suggest, PBool False, ''m'')]"
  let ?w2 = "snd (?f world0)"
  have r: "?f world0 = (Inl (DSPySuggestionError 0 ''m'' 0), ?w2)"
    by (simp add: steps_then_check_def run_steps_def Constraint_init_def Constraint_new_def
          Suggest_call_def trace_record_def world0_def Let_def logger_error_def)
  have h: "heap ?w2 0 = [(0, [(''question'', ''q'')], [(''answer'', ''a'')])]" "trace ?w2 = 0"
    "logged ?w2 = [''SuggestionFailed: m'']" "predictors ?w2 = qa_step"
    by (simp_all add: steps_then_check_def run_steps_def Constraint_init_def Constraint_new_def
          Suggest_call_def trace_record_def world0_def Let_def logger_error_def)
  have a3: "heap ?w2 0 \<noteq> []" and a4: "heap ?w2 (trace ?w2) \<noteq> []"
    and a5: "\<forall>e \<in> set (heap ?w2 (trace ?w2)). signature (predictors ?w2 (fst e)) \<noteq> 5"
    using h by (simp_all add: qa_step_def)
  have a1: "(0::int) \<noteq> 2" by simp
  have a6: "backtrack_to init_locals = None" by (simp add: init_locals_def)
  show ?thesis
    using C5_unresolved_target_continues [where func = ?f and w = world0 and ?w2.0 = ?w2
            and i = 0 and max_backtracks = 2 and suggest_id = 0 and error_msg = "''m''"
            and state = 0 and t = 5 and st = init_locals and n = 2 and ev = "[]",
            OF a1 r a3 a4 a5 a6] h
    by (auto simp: world0_def init_locals_def save_feedback_def dict_setdefault_def)
qed

text \<open>
  Claim C5 as stated fails: with the target signature 5, which no step in the trace has,
  and \<open>max_backtracks = 2\<close>, the handler does not raise. It logs the condition twice,
  calls the pipeline three times and returns the value of the forced last call.
\<close>

theorem C5_reraise_counterexample:
  "fst (suggest_backtrack_handler (steps_then_check [0] [(Suggest, PBool False, ''m'')]) 2 (Some 5) world0)
     = Inr (PStr ''a'')
   \<and> snd (snd (suggest_backtrack_handler (steps_then_check [0] [(Suggest, PBool False, ''m'')]) 2 (Some 5) world0))
     = [Invoked False False, Invoked False False, Invoked False True]
   \<and> logged (fst (snd (suggest_backtrack_handler (steps_then_check [0] [(Suggest, PBool False, ''m'')]) 2
        (Some 5) world0)))
     = [''SuggestionFailed: m'', ''Specified module not found in trace'',
        ''SuggestionFailed: m'', ''Specified module not found in trace'',
        ''SuggestionFailed: m'']"
  by code_simp

section \<open>Frame properties of the handler's parts\<close>











lemma prepare_attempt_Inr:
  assumes "prepare_attempt i st w ev = (Inr st1, w1, ev1)"
  shows "(st1 = st \<and> w1 = w \<and> ev1 = ev)
         \<or> (\<exists>p. backtrack_to st = Some p \<and> ev1 = ev @ [Augmented p] \<and> augment p st w = (Inr st1, w1))"
  using assms by (auto simp: prepare_attempt_def split: option.splits if_splits sum.splits prod.splits)

lemma prepare_attempt_Inl:
  assumes "prepare_attempt i st w ev = (Inl e, w1, ev1)"
  shows "ev1 = ev"
  using assms by (auto simp: prepare_attempt_def split: option.splits if_splits sum.splits prod.splits)




section \<open>The bounded retry loop\<close>



















section \<open>Reverting the augmented steps\<close>

text \<open>
  What the reversion of line 339 does to a schema: it pops the key \<open>feedback\<close> and no
  other, so the two injected fields stay where they are (and a declared field named
  \<open>feedback\<close> would go).
\<close>

lemma revert_predictor_signature_feedback:
  "dict_keys (kwargs (extended_signature (revert_predictor_signature pr [''feedback''])))
     = filter (\<lambda>k. k \<noteq> ''feedback'') (dict_keys (kwargs (extended_signature pr)))"
  by (simp add: revert_predictor_signature_def Template_def dict_keys_def dict_pop_def filter_map
        comp_def)

text \<open>
  Claim C1 on the code: three runs of the handler on a step declared with the fields
  \<open>question\<close> and \<open>answer\<close> and the entry point \<open>Forward 0\<close>, which binds no default.
  \<^item> The pipeline runs step 0 and a soft constraint that fails, \<open>max_backtracks = 1\<close>.
    The handler returns the value of the forced attempt and reverts step 0, and step 0
    still has the two injected fields in its schema.
  \<^item> The same pipeline with \<open>max_backtracks = 2\<close>. The handler returns and reverts step 0,
    which was augmented twice; its entry point is not \<open>Forward 0\<close> but a wrapper that still
    binds defaults for the two injected fields.
  \<^item> The hard-bypass flag is on, the pipeline runs step 0, a hard constraint that fails and
    a soft constraint that fails, \<open>max_backtracks = 1\<close>. The first attempt raises the soft
    violation, step 0 is augmented, and the forced attempt raises the hard violation, which
    leaves the handler: nothing is reverted, and step 0 keeps the wrapper and the two fields.
\<close>

theorem C1_cleanup_broken:
  "dict_keys (kwargs (extended_signature (predictors world0 0))) = [''question'', ''answer'']
   \<and> call_forward (forward (predictors world0 0)) [] = (0, [])
   \<and> fst (suggest_backtrack_handler (steps_then_check [0] [(Suggest, PBool False, ''m'')]) 1 None world0)
     = Inr (PStr ''a'')
   \<and> snd (snd (suggest_backtrack_handler (steps_then_check [0] [(Suggest, PBool False, ''m'')]) 1 None world0))
     = [Invoked False False, Augmented 0, Invoked False True, Reverted 0]
   \<and> dict_keys (kwargs (extended_signature (predictors (fst (snd (suggest_backtrack_handler
         (steps_then_check [0] [(Suggest, PBool False, ''m'')]) 1 None world0))) 0)))
     = [''question'', ''_assert_feedback'', ''_assert_traces'', ''answer'']
   \<and> fst (suggest_backtrack_handler (steps_then_check [0] [(Suggest, PBool False, ''m'')]) 2 None world0)
     = Inr (PStr ''a'')
   \<and> snd (snd (suggest_backtrack_handler (steps_then_check [0] [(Suggest, PBool False, ''m'')]) 2 None world0))
     = [Invoked False False, Augmented 0, Invoked False False, Augmented 0, Invoked False True,
        Reverted 0]
   \<and> forward (predictors (fst (snd (suggest_backtrack_handler
         (steps_then_check [0] [(Suggest, PBool False, ''m'')]) 2 None world0))) 0) \<noteq> Forward 0
   \<and> map fst (snd (call_forward (forward (predictors (fst (snd (suggest_backtrack_handler
         (steps_then_check [0] [(Suggest, PBool False, ''m'')]) 2 None world0))) 0)) []))
     = [''_assert_feedback'', ''_assert_traces'']
   \<and> fst (suggest_backtrack_handler
         (steps_then_check [0] [(Assert, PBool False, ''h''), (Suggest, PBool False, ''m'')]) 1 None
         (world0\<lparr>bypass_assert := True\<rparr>))
     = Inl (DSPyAssertionError 0 ''h'' 0)
   \<and> snd (snd (suggest_backtrack_handler
         (steps_then_check [0] [(Assert, PBool False, ''h''), (Suggest, PBool False, ''m'')]) 1 None
         (world0\<lparr>bypass_assert := True\<rparr>)))
     = [Invoked True False, Augmented 0, Invoked False True]
   \<and> map fst (snd (call_forward (forward (predictors (fst (snd (suggest_backtrack_handler
         (steps_then_check [0] [(Assert, PBool False, ''h''), (Suggest, PBool False, ''m'')]) 1 None
         (world0\<lparr>bypass_assert := True\<rparr>)))) 0)) []))
     = [''_assert_feedback'', ''_assert_traces'']
   \<and> dict_keys (kwargs (extended_signature (predictors (fst (snd (suggest_backtrack_handler
         (steps_then_check [0] [(Assert, PBool False, ''h''), (Suggest, PBool False, ''m'')]) 1 None
         (world0\<lparr>bypass_assert := True\<rparr>)))) 0)))
     = [''question'', ''_assert_feedback'', ''_assert_traces'', ''answer'']"
  by code_simp

end
